theory Spec2Isabelle
  imports Main
begin

section \<open>Values, failures and requests\<close>

text \<open>
  The handlers of \<^verbatim>\<open>OnceWeberver.class.mts\<close> move untyped JavaScript values around
  (\<^verbatim>\<open>request.body\<close>, \<^verbatim>\<open>udeData.particle.data\<close>, \<^verbatim>\<open>ucpComponentData\<close> and the literal
  \<^verbatim>\<open>{ delete: 'ok' }\<close>). They are modelled as JSON trees.
\<close>

datatype json =
    JNull
  | JBool bool
  | JNum int
  | JStr string
  | JArr "json list"
  | JObj "(string \<times> json) list"

text \<open>A thrown JavaScript \<^verbatim>\<open>Error\<close>, identified by its message.\<close>

datatype exn = Error string

text \<open>
  The enum \<^verbatim>\<open>urlProtocol\<close> is imported; the source names only its member \<^verbatim>\<open>ude\<close>. Every
  other member is a \<open>tag\<close>.
\<close>

datatype urlProtocol = ude | tag string

text \<open>
  An \<^verbatim>\<open>IOR\<close> object as far as the handlers touch it: the array \<^verbatim>\<open>protocol\<close>, and the rest
  of the parsed reference.
\<close>

record IOR =
  protocol :: "urlProtocol list"
  address :: string

text \<open>
  The value returned by \<^verbatim>\<open>UDELoader.validateUDEStructure\<close>: the fields read by the POST and
  PUT branches are \<^verbatim>\<open>typeIOR\<close>, \<^verbatim>\<open>id\<close>, \<^verbatim>\<open>alias\<close> (possibly \<^verbatim>\<open>undefined\<close>) and
  \<^verbatim>\<open>particle.data\<close>.
\<close>

record udeData =
  typeIOR :: string
  ude_id :: "string option"
  ude_alias :: "string list option"
  particle_data :: json

record request =
  url :: string
  http_method :: string
  headers :: "string \<Rightarrow> string option"
  body :: json

section \<open>Collaborators\<close>

text \<open>
  Everything the handlers call lives outside this file of the repository: the reference
  parser and loader (\<^verbatim>\<open>DefaultIOR\<close>), the payload validator (\<^verbatim>\<open>UDELoader\<close>), the component
  and its persistence manager, Node's \<^verbatim>\<open>path.relative\<close> and the scenario's web root. They are
  parameters of the model. \<open>'w\<close> is the state of the process and its durable storage,
  \<open>'k\<close> a component class, \<open>'c\<close> a reference to a component object. A call that can touch
  the state takes it and returns it with either the raised error or the value.
\<close>

text \<open>
  \<^verbatim>\<open>addAlias\<close> is the one call the handlers do not await. What it hands back is dropped:
  nothing or a promise that fulfils, or a promise that rejects. Only an error it throws
  before returning reaches the handler. The state it returns is the state at its return;
  what a pending promise does to the state later is not modelled.
\<close>

datatype unawaited = Fulfilled | Rejected exn

record ('w, 'k, 'c) collaborators =
  init :: "string \<Rightarrow> exn + IOR"
  load :: "IOR \<Rightarrow> 'w \<Rightarrow> (exn + 'c) \<times> 'w"
  load_path :: "IOR \<Rightarrow> 'w \<Rightarrow> (exn + string) \<times> 'w"
  load_class :: "string \<Rightarrow> 'w \<Rightarrow> (exn + 'k) \<times> 'w"
  validateUDEStructure :: "json \<Rightarrow> exn + udeData"
  new :: "'k \<Rightarrow> 'w \<Rightarrow> (exn + 'c) \<times> 'w"
  set_model :: "'c \<Rightarrow> json \<Rightarrow> 'w \<Rightarrow> (exn + unit) \<times> 'w"
  set_IOR_id :: "'c \<Rightarrow> string option \<Rightarrow> 'w \<Rightarrow> (exn + unit) \<times> 'w"
  addAlias :: "'c \<Rightarrow> string \<Rightarrow> 'w \<Rightarrow> (exn + unawaited) \<times> 'w"
  create :: "'c \<Rightarrow> 'w \<Rightarrow> (exn + unit) \<times> 'w"
  delete :: "'c \<Rightarrow> 'w \<Rightarrow> (exn + unit) \<times> 'w"
  ucpComponentData :: "'c \<Rightarrow> 'w \<Rightarrow> json"
  webRoot :: string
  relative :: "string \<Rightarrow> string \<Rightarrow> string"

text \<open>
  The calls a handler makes, in program order, each with the error it raised if it raised
  one. \<open>ReplyHeader\<close> and \<open>ReplyRedirect\<close> are the calls on the reply object; a redirect
  sends the response.
\<close>

datatype ('k, 'c) call =
    ReplyHeader string string
  | ReplyRedirect string
  | Init string
  | Load IOR
  | LoadPath IOR
  | LoadClass string
  | ValidateUDEStructure json
  | New 'k
  | SetModel 'c json
  | SetIORId 'c "string option"
  | AddAlias 'c string
  | Create 'c
  | Delete 'c
  | UcpComponentData 'c

type_synonym ('k, 'c) trace = "(('k, 'c) call \<times> exn option) list"

type_synonym ('w, 'k, 'c, 'a) run =
  "'w \<times> ('k, 'c) trace \<Rightarrow> (exn + 'a) \<times> 'w \<times> ('k, 'c) trace"

definition raised :: "exn + 'a \<Rightarrow> exn option" where
  "raised r = (case r of Inl e \<Rightarrow> Some e | Inr _ \<Rightarrow> None)"

definition ret :: "'a \<Rightarrow> ('w, 'k, 'c, 'a) run" where
  "ret x = (\<lambda>s. (Inr x, s))"

definition throw :: "exn \<Rightarrow> ('w, 'k, 'c, 'a) run" where
  "throw e = (\<lambda>s. (Inl e, s))"

definition bind :: "('w, 'k, 'c, 'a) run \<Rightarrow> ('a \<Rightarrow> ('w, 'k, 'c, 'b) run) \<Rightarrow> ('w, 'k, 'c, 'b) run" where
  "bind m f = (\<lambda>s. case m s of (Inl e, s') \<Rightarrow> (Inl e, s') | (Inr a, s') \<Rightarrow> f a s')"

text \<open>A call of a collaborator that may change the state.\<close>

definition invoke :: "('k, 'c) call \<Rightarrow> ('w \<Rightarrow> (exn + 'a) \<times> 'w) \<Rightarrow> ('w, 'k, 'c, 'a) run" where
  "invoke c f = (\<lambda>(w, t). case f w of (r, w') \<Rightarrow> (r, w', t @ [(c, raised r)]))"

text \<open>
  A call that is not awaited: an error thrown by the call is raised, anything returned is
  dropped, a promise with it, whatever it settles to.
\<close>

definition invoke_unawaited ::
  "('k, 'c) call \<Rightarrow> ('w \<Rightarrow> (exn + unawaited) \<times> 'w) \<Rightarrow> ('w, 'k, 'c, unit) run" where
  "invoke_unawaited c f =
     (\<lambda>(w, t). case f w of
                 (Inl e, w') \<Rightarrow> (Inl e, w', t @ [(c, Some e)])
               | (Inr _, w') \<Rightarrow> (Inr (), w', t @ [(c, None)]))"

text \<open>A call of a collaborator that only computes (the parser, the validator).\<close>

definition compute :: "('k, 'c) call \<Rightarrow> (exn + 'a) \<Rightarrow> ('w, 'k, 'c, 'a) run" where
  "compute c r = (\<lambda>(w, t). (r, w, t @ [(c, raised r)]))"

text \<open>A getter that reads the state.\<close>

definition fetch :: "('k, 'c) call \<Rightarrow> ('w \<Rightarrow> 'a) \<Rightarrow> ('w, 'k, 'c, 'a) run" where
  "fetch c f = (\<lambda>(w, t). (Inr (f w), w, t @ [(c, None)]))"

text \<open>A call on the reply object.\<close>

definition reply :: "('k, 'c) call \<Rightarrow> ('w, 'k, 'c, unit) run" where
  "reply c = (\<lambda>(w, t). (Inr (), w, t @ [(c, None)]))"

section \<open>The handler of \<^verbatim>\<open>GET /ior*\<close>\<close>

definition startsWith :: "string \<Rightarrow> string \<Rightarrow> bool" where
  "startsWith s p = (take (length p) s = p)"

text \<open>\<^verbatim>\<open>url.replace(/^\//, '')\<close>: one leading slash is removed when there is one.\<close>

fun strip_slash :: "string \<Rightarrow> string" where
  "strip_slash [] = []"
| "strip_slash (c # cs) = (if c = CHR ''/'' then cs else c # cs)"

text \<open>
  The two nested \<^verbatim>\<open>if\<close>s have no \<^verbatim>\<open>else\<close> and no \<^verbatim>\<open>return\<close>: control reaches
  \<^verbatim>\<open>throw new Error("Not Found")\<close> on every path that did not raise before.
\<close>

definition ior_get :: "('w, 'k, 'c) collaborators \<Rightarrow> request \<Rightarrow> ('w, 'k, 'c, json) run" where
  "ior_get env request =
     bind
       (if startsWith (url request) ''/ior:esm:'' then
          (if headers request ''sec-fetch-dest'' = Some ''script'' then
             bind (compute (Init (strip_slash (url request))) (init env (strip_slash (url request))))
               (\<lambda>ior.
             bind (invoke (LoadPath ior) (load_path env ior))
               (\<lambda>urlPath.
             reply (ReplyRedirect (CHR ''/'' # relative env (webRoot env) urlPath))))
           else ret ())
        else ret ())
       (\<lambda>_. throw (Error ''Not Found''))"

section \<open>The handler of the \<^verbatim>\<open>/UDE\<close> routes\<close>

text \<open>
  \<^verbatim>\<open>for (let alias of udeData.alias) persistanceManagerHandler.addAlias(alias)\<close>: the calls
  are not awaited; the first call that throws ends the loop and the handler.
\<close>

fun addAliases :: "('w, 'k, 'c) collaborators \<Rightarrow> 'c \<Rightarrow> string list \<Rightarrow> ('w, 'k, 'c, unit) run" where
  "addAliases env c [] = ret ()"
| "addAliases env c (a # as) =
     bind (invoke_unawaited (AddAlias c a) (addAlias env c a)) (\<lambda>_. addAliases env c as)"

definition delete_ok :: json where
  "delete_ok = JObj [(''delete'', JStr ''ok'')]"

text \<open>
  \<^verbatim>\<open>const ior = new DefaultIOR().init(url); ior.protocol.push(urlProtocol.ude);
  await ior.load()\<close>, shared by the GET, DELETE and PUT branches.
\<close>

definition load_ude :: "('w, 'k, 'c) collaborators \<Rightarrow> string \<Rightarrow> ('w, 'k, 'c, 'c) run" where
  "load_ude env u =
     bind (compute (Init u) (init env u))
       (\<lambda>ior.
     invoke (Load (ior\<lparr>protocol := protocol ior @ [ude]\<rparr>))
       (load env (ior\<lparr>protocol := protocol ior @ [ude]\<rparr>)))"

definition ude_get :: "('w, 'k, 'c) collaborators \<Rightarrow> request \<Rightarrow> ('w, 'k, 'c, json) run" where
  "ude_get env request =
     bind (load_ude env (url request))
       (\<lambda>udeComponent.
     fetch (UcpComponentData udeComponent) (ucpComponentData env udeComponent))"

definition ude_post :: "('w, 'k, 'c) collaborators \<Rightarrow> request \<Rightarrow> ('w, 'k, 'c, json) run" where
  "ude_post env request =
     bind (compute (ValidateUDEStructure (body request)) (validateUDEStructure env (body request)))
       (\<lambda>udeData.
     bind (invoke (LoadClass (typeIOR udeData)) (load_class env (typeIOR udeData)))
       (\<lambda>udeComponentClass.
     bind (invoke (New udeComponentClass) (new env udeComponentClass))
       (\<lambda>udeComponent.
     bind (invoke (SetModel udeComponent (particle_data udeData))
             (set_model env udeComponent (particle_data udeData)))
       (\<lambda>_.
     bind (invoke (SetIORId udeComponent (ude_id udeData))
             (set_IOR_id env udeComponent (ude_id udeData)))
       (\<lambda>_.
     bind (case ude_alias udeData of
             None \<Rightarrow> ret ()
           | Some as \<Rightarrow> addAliases env udeComponent as)
       (\<lambda>_.
     bind (invoke (Create udeComponent) (create env udeComponent))
       (\<lambda>_.
     fetch (UcpComponentData udeComponent) (ucpComponentData env udeComponent))))))))"

definition ude_delete :: "('w, 'k, 'c) collaborators \<Rightarrow> request \<Rightarrow> ('w, 'k, 'c, json) run" where
  "ude_delete env request =
     bind (load_ude env (url request))
       (\<lambda>udeComponent.
     bind (invoke (Delete udeComponent) (delete env udeComponent))
       (\<lambda>_.
     ret delete_ok))"

definition ude_put :: "('w, 'k, 'c) collaborators \<Rightarrow> request \<Rightarrow> ('w, 'k, 'c, json) run" where
  "ude_put env request =
     bind (compute (ValidateUDEStructure (body request)) (validateUDEStructure env (body request)))
       (\<lambda>udeData.
     bind (load_ude env (url request))
       (\<lambda>udeComponent.
     bind (invoke (SetModel udeComponent (particle_data udeData))
             (set_model env udeComponent (particle_data udeData)))
       (\<lambda>_.
     fetch (UcpComponentData udeComponent) (ucpComponentData env udeComponent))))"

definition handleUDE_CRUD :: "('w, 'k, 'c) collaborators \<Rightarrow> request \<Rightarrow> ('w, 'k, 'c, json) run" where
  "handleUDE_CRUD env request =
     bind (reply (ReplyHeader ''Content-Type'' ''application/json; charset=utf-8''))
       (\<lambda>_.
     if http_method request = ''GET'' then ude_get env request
     else if http_method request = ''POST'' then ude_post env request
     else if http_method request = ''DELETE'' then ude_delete env request
     else if http_method request = ''PUT'' then ude_put env request
     else throw (Error ''Method not implemented''))"

section \<open>A model of the collaborators\<close>

text \<open>
  The Resolver/Loader, the payload validator, the component and its PersistenceManager are
  imported from other packages (\<^verbatim>\<open>tla.EAM.UcpComponent\<close>, \<^verbatim>\<open>tla.EAM.Once\<close>); their code is
  not in this repository. This section gives one instance of the collaborators, written
  from sections 3, 4.1, 4.2, 4.3 and 6 of the specification. The theorems about the handlers
  hold for every instance; this one serves where a statement is about what is stored and
  resolved, and as the concrete input of the examples.
\<close>

text \<open>
  Modelled from the spec: the Component of section 3 (the component class is missing), with
  its id, its aliases, its model and its type reference.
\<close>

record component =
  comp_id :: "string option"
  comp_aliases :: "string list"
  comp_model :: json
  comp_type :: string

text \<open>
  Modelled from the spec: the state behind the Resolver/Loader and the persistence managers
  (both missing). \<open>objects\<close> are the component objects of the process (a reference is an
  index), \<open>names\<close> the ids and aliases that resolve to a persisted component, newest
  first, \<open>classes\<close> the type references that resolve to a constructor, \<open>resources\<close> the
  addresses that resolve to a file path.
\<close>

record world =
  objects :: "component list"
  names :: "(string \<times> nat) list"
  classes :: "string list"
  resources :: "(string \<times> string) list"

text \<open>A field of a JSON object; a later duplicate key wins, as in \<^verbatim>\<open>JSON.parse\<close>.\<close>

fun field :: "string \<Rightarrow> json \<Rightarrow> json option" where
  "field k (JObj kvs) = map_of (rev kvs) k"
| "field k _ = None"

fun strings :: "json list \<Rightarrow> string list option" where
  "strings [] = Some []"
| "strings (JStr s # js) = (case strings js of None \<Rightarrow> None | Some ss \<Rightarrow> Some (s # ss))"
| "strings (_ # js) = None"

text \<open>
  Modelled from the spec: \<^verbatim>\<open>validateStructure\<close> of section 4.2 (\<^verbatim>\<open>UDELoader\<close> is missing). A
  payload needs a \<^verbatim>\<open>typeReference\<close> and a \<^verbatim>\<open>model\<close>, and may carry an \<^verbatim>\<open>id\<close> and a list of
  \<^verbatim>\<open>aliases\<close>; anything else is a malformed payload.
\<close>

definition malformed_payload :: exn where
  "malformed_payload = Error ''Malformed Payload''"

definition malformed_reference :: exn where
  "malformed_reference = Error ''Malformed Reference''"

definition spec_validate :: "json \<Rightarrow> exn + udeData" where
  "spec_validate b =
     (case (field ''typeReference'' b, field ''model'' b) of
        (Some (JStr T), Some M) \<Rightarrow>
          (case field ''id'' b of
             None \<Rightarrow>
               (case field ''aliases'' b of
                  None \<Rightarrow> Inr \<lparr>typeIOR = T, ude_id = None, ude_alias = None, particle_data = M\<rparr>
                | Some (JArr js) \<Rightarrow>
                    (case strings js of
                       None \<Rightarrow> Inl malformed_payload
                     | Some as \<Rightarrow>
                         Inr \<lparr>typeIOR = T, ude_id = None, ude_alias = Some as, particle_data = M\<rparr>)
                | Some _ \<Rightarrow> Inl malformed_payload)
           | Some (JStr X) \<Rightarrow>
               (case field ''aliases'' b of
                  None \<Rightarrow> Inr \<lparr>typeIOR = T, ude_id = Some X, ude_alias = None, particle_data = M\<rparr>
                | Some (JArr js) \<Rightarrow>
                    (case strings js of
                       None \<Rightarrow> Inl malformed_payload
                     | Some as \<Rightarrow>
                         Inr \<lparr>typeIOR = T, ude_id = Some X, ude_alias = Some as, particle_data = M\<rparr>)
                | Some _ \<Rightarrow> Inl malformed_payload)
           | Some _ \<Rightarrow> Inl malformed_payload)
      | _ \<Rightarrow> Inl malformed_payload)"

text \<open>
  Modelled from the spec: the parser of section 4.1 (\<^verbatim>\<open>DefaultIOR.init\<close> is missing). After an
  optional leading separator, \<^verbatim>\<open>UDE/\<close> opens the persisted-component namespace and
  \<^verbatim>\<open>ior:esm:\<close> is the scheme marker of the reference namespace; any other string is a
  malformed reference.
\<close>

definition spec_init :: "string \<Rightarrow> exn + IOR" where
  "spec_init s =
     (if startsWith (strip_slash s) ''UDE/'' then
        Inr \<lparr>protocol = [], address = drop 4 (strip_slash s)\<rparr>
      else if startsWith (strip_slash s) ''ior:esm:'' then
        Inr \<lparr>protocol = [tag ''ior'', tag ''esm''], address = drop 8 (strip_slash s)\<rparr>
      else Inl malformed_reference)"

text \<open>
  Modelled from the spec: \<^verbatim>\<open>load\<close> and \<^verbatim>\<open>loadClass\<close> of section 4.2 (\<^verbatim>\<open>DefaultIOR.load\<close> is
  missing). A reference whose protocol chain ends in the persisted-component tag resolves
  to the component registered under its address; a reference of the reference namespace
  resolves to a file path; a type reference resolves to a constructor. What does not
  resolve fails with \<^verbatim>\<open>Not Found\<close>.
\<close>

definition spec_load :: "IOR \<Rightarrow> world \<Rightarrow> (exn + nat) \<times> world" where
  "spec_load i w =
     (if protocol i \<noteq> [] \<and> last (protocol i) = ude then
        (case map_of (names w) (address i) of
           None \<Rightarrow> (Inl (Error ''Not Found''), w)
         | Some c \<Rightarrow> (Inr c, w))
      else (Inl (Error ''Not Found''), w))"

definition spec_load_path :: "IOR \<Rightarrow> world \<Rightarrow> (exn + string) \<times> world" where
  "spec_load_path i w =
     (case map_of (resources w) (address i) of
        None \<Rightarrow> (Inl (Error ''Not Found''), w)
      | Some p \<Rightarrow> (Inr p, w))"

definition spec_load_class :: "string \<Rightarrow> world \<Rightarrow> (exn + string) \<times> world" where
  "spec_load_class T w =
     (if T \<in> set (classes w) then (Inr T, w) else (Inl (Error ''Not Found''), w))"

text \<open>
  Modelled from the spec: the component object and its PersistenceManager of sections 3 and
  4.3 (both missing). A new component has no id, no alias and an empty model; assigning
  the model replaces it ("full replace, not merge", section 4.3) and touches nothing else;
  \<^verbatim>\<open>addAlias\<close> adds the alias to the component; \<^verbatim>\<open>create()\<close> makes the component resolve
  under its id and every alias; \<^verbatim>\<open>delete()\<close> removes all of them; the snapshot shows the
  four fields. A reference to an object that does not exist raises at every use.
\<close>

definition no_object :: exn where
  "no_object = Error ''Cannot read properties of undefined''"

definition spec_new :: "string \<Rightarrow> world \<Rightarrow> (exn + nat) \<times> world" where
  "spec_new T w =
     (Inr (length (objects w)),
      w\<lparr>objects := objects w @
         [\<lparr>comp_id = None, comp_aliases = [], comp_model = JNull, comp_type = T\<rparr>]\<rparr>)"

definition spec_set_model :: "nat \<Rightarrow> json \<Rightarrow> world \<Rightarrow> (exn + unit) \<times> world" where
  "spec_set_model c m w =
     (if c < length (objects w) then
        (Inr (), w\<lparr>objects := (objects w)[c := (objects w ! c)\<lparr>comp_model := m\<rparr>]\<rparr>)
      else (Inl no_object, w))"

definition spec_set_IOR_id :: "nat \<Rightarrow> string option \<Rightarrow> world \<Rightarrow> (exn + unit) \<times> world" where
  "spec_set_IOR_id c x w =
     (if c < length (objects w) then
        (Inr (), w\<lparr>objects := (objects w)[c := (objects w ! c)\<lparr>comp_id := x\<rparr>]\<rparr>)
      else (Inl no_object, w))"

definition spec_addAlias :: "nat \<Rightarrow> string \<Rightarrow> world \<Rightarrow> (exn + unawaited) \<times> world" where
  "spec_addAlias c a w =
     (if c < length (objects w) then
        (Inr Fulfilled, w\<lparr>objects :=
           (objects w)[c := (objects w ! c)\<lparr>comp_aliases := comp_aliases (objects w ! c) @ [a]\<rparr>]\<rparr>)
      else (Inl no_object, w))"

definition own_names :: "component \<Rightarrow> string list" where
  "own_names k = (case comp_id k of None \<Rightarrow> [] | Some x \<Rightarrow> [x]) @ comp_aliases k"

definition spec_create :: "nat \<Rightarrow> world \<Rightarrow> (exn + unit) \<times> world" where
  "spec_create c w =
     (if c < length (objects w) then
        (Inr (), w\<lparr>names := map (\<lambda>n. (n, c)) (own_names (objects w ! c)) @ names w\<rparr>)
      else (Inl no_object, w))"

definition spec_delete :: "nat \<Rightarrow> world \<Rightarrow> (exn + unit) \<times> world" where
  "spec_delete c w = (Inr (), w\<lparr>names := filter (\<lambda>(n, h). h \<noteq> c) (names w)\<rparr>)"

definition spec_snapshot :: "nat \<Rightarrow> world \<Rightarrow> json" where
  "spec_snapshot c w =
     (if c < length (objects w) then
        JObj [(''id'', case comp_id (objects w ! c) of None \<Rightarrow> JNull | Some x \<Rightarrow> JStr x),
              (''typeReference'', JStr (comp_type (objects w ! c))),
              (''aliases'', JArr (map JStr (comp_aliases (objects w ! c)))),
              (''model'', comp_model (objects w ! c))]
      else JNull)"

text \<open>
  \<^verbatim>\<open>path.relative(from, to)\<close> of Node for two POSIX paths that are both absolute, or both
  relative and not leading out of the working directory (from there on the result depends
  on the working directory, which is not modelled). Both paths are normalised: empty and
  \<^verbatim>\<open>.\<close> segments go, \<^verbatim>\<open>..\<close> removes the segment before it. Then the common leading segments
  are dropped, and each remaining segment of \<open>from\<close> becomes \<^verbatim>\<open>..\<close>.
\<close>

fun segments :: "string \<Rightarrow> string \<Rightarrow> string list" where
  "segments acc [] = (if acc = [] then [] else [acc])"
| "segments acc (c # cs) =
     (if c = CHR ''/'' then (if acc = [] then segments [] cs else acc # segments [] cs)
      else segments (acc @ [c]) cs)"

fun normalise :: "string list \<Rightarrow> string list \<Rightarrow> string list" where
  "normalise acc [] = rev acc"
| "normalise acc (x # xs) =
     (if x = ''.'' then normalise acc xs
      else if x = ''..'' then normalise (tl acc) xs
      else normalise (x # acc) xs)"

fun drop_common :: "string list \<Rightarrow> string list \<Rightarrow> string list \<times> string list" where
  "drop_common (x # xs) (y # ys) = (if x = y then drop_common xs ys else (x # xs, y # ys))"
| "drop_common xs ys = (xs, ys)"

fun join_path :: "string list \<Rightarrow> string" where
  "join_path [] = []"
| "join_path [x] = x"
| "join_path (x # y # xs) = x @ CHR ''/'' # join_path (y # xs)"

definition path_relative :: "string \<Rightarrow> string \<Rightarrow> string" where
  "path_relative from to =
     (case drop_common (normalise [] (segments [] from)) (normalise [] (segments [] to)) of
        (f, t) \<Rightarrow> join_path (replicate (length f) ''..'' @ t))"

definition spec_env :: "string \<Rightarrow> (world, string, nat) collaborators" where
  "spec_env root =
     \<lparr>init = spec_init,
      load = spec_load,
      load_path = spec_load_path,
      load_class = spec_load_class,
      validateUDEStructure = spec_validate,
      new = spec_new,
      set_model = spec_set_model,
      set_IOR_id = spec_set_IOR_id,
      addAlias = spec_addAlias,
      create = spec_create,
      delete = spec_delete,
      ucpComponentData = spec_snapshot,
      webRoot = root,
      relative = path_relative\<rparr>"

text \<open>
  A scenario: web root \<^verbatim>\<open>Scenarios/localhost\<close>, one module file under it, one component
  class, and no component yet.
\<close>

definition world0 :: world where
  "world0 =
     \<lparr>objects = [],
      names = [],
      classes = [''ior:esm:/tla.EAM.Thing''],
      resources = [(''/tla.EAM.Thing'', ''Scenarios/localhost/EAMD.ucp/tla/EAM/Thing.mjs'')]\<rparr>"

definition env0 :: "(world, string, nat) collaborators" where
  "env0 = spec_env ''Scenarios/localhost''"



definition script_headers :: "string \<Rightarrow> string option" where
  "script_headers = map_of [(''sec-fetch-dest'', ''script'')]"

definition no_headers :: "string \<Rightarrow> string option" where
  "no_headers = map_of []"

definition thing_model :: json where
  "thing_model = JObj [(''foo'', JNum 1), (''bar'', JNum 2)]"

definition get_module :: request where
  "get_module =
     \<lparr>url = ''/ior:esm:/tla.EAM.Thing'', http_method = ''GET'', headers = script_headers, body = JNull\<rparr>"

definition get_missing_module :: request where
  "get_missing_module =
     \<lparr>url = ''/ior:esm:/tla.EAM.Nothing'', http_method = ''GET'', headers = script_headers, body = JNull\<rparr>"

definition get_other_scheme :: request where
  "get_other_scheme =
     \<lparr>url = ''/ior:xyz:/tla.EAM.Thing'', http_method = ''GET'', headers = script_headers, body = JNull\<rparr>"



definition post_untyped :: request where
  "post_untyped =
     \<lparr>url = ''/UDE'', http_method = ''POST'', headers = no_headers,
      body = JObj [(''model'', thing_model), (''id'', JStr ''X'')]\<rparr>"

definition put_thing :: request where
  "put_thing =
     \<lparr>url = ''/UDE/X'', http_method = ''PUT'', headers = no_headers,
      body = JObj [(''typeReference'', JStr ''ior:esm:/tla.EAM.Thing''),
                   (''model'', JObj [(''foo'', JNum 9)])]\<rparr>"

definition post_plain :: request where
  "post_plain =
     \<lparr>url = ''/UDE'', http_method = ''POST'', headers = no_headers,
      body = JObj [(''typeReference'', JStr ''ior:esm:/tla.EAM.Thing''),
                   (''model'', thing_model),
                   (''id'', JStr ''X'')]\<rparr>"

definition delete_thing :: request where
  "delete_thing = \<lparr>url = ''/UDE/X'', http_method = ''DELETE'', headers = no_headers, body = JNull\<rparr>"

definition get_thing :: request where
  "get_thing = \<lparr>url = ''/UDE/X'', http_method = ''GET'', headers = no_headers, body = JNull\<rparr>"

text \<open>The state after \<open>post_thing\<close>: one component, resolvable as \<^verbatim>\<open>X\<close> and \<^verbatim>\<open>a\<close>.\<close>

definition world1 :: world where
  "world1 =
     world0\<lparr>objects := [\<lparr>comp_id = Some ''X'', comp_aliases = [''a''],
                          comp_model = thing_model, comp_type = ''ior:esm:/tla.EAM.Thing''\<rparr>],
            names := [(''X'', 0), (''a'', 0)]\<rparr>"

section \<open>Reading a run\<close>

abbreviation outcome :: "(exn + 'a) \<times> 'w \<times> ('k, 'c) trace \<Rightarrow> exn + 'a" where
  "outcome r \<equiv> fst r"

abbreviation final :: "(exn + 'a) \<times> 'w \<times> ('k, 'c) trace \<Rightarrow> 'w" where
  "final r \<equiv> fst (snd r)"

abbreviation calls :: "(exn + 'a) \<times> 'w \<times> ('k, 'c) trace \<Rightarrow> ('k, 'c) trace" where
  "calls r \<equiv> snd (snd r)"

fun is_redirect :: "('k, 'c) call \<times> exn option \<Rightarrow> bool" where
  "is_redirect (ReplyRedirect _, _) = True"
| "is_redirect _ = False"

fun is_init :: "('k, 'c) call \<times> exn option \<Rightarrow> bool" where
  "is_init (Init _, _) = True"
| "is_init _ = False"

fun is_addAlias :: "('k, 'c) call \<times> exn option \<Rightarrow> bool" where
  "is_addAlias (AddAlias _ _, _) = True"
| "is_addAlias _ = False"


text \<open>The calls on a persistence manager that change what is stored.\<close>

fun is_persistence :: "('k, 'c) call \<times> exn option \<Rightarrow> bool" where
  "is_persistence (AddAlias _ _, _) = True"
| "is_persistence (Create _, _) = True"
| "is_persistence (Delete _, _) = True"
| "is_persistence _ = False"






section \<open>Unfolding a run\<close>

lemmas run_defs = bind_def invoke_def invoke_unawaited_def compute_def fetch_def reply_def
  ret_def throw_def raised_def

lemmas spec_defs = spec_env_def
  startsWith_def spec_init_def spec_load_path_def spec_load_def path_relative_def
  spec_load_class_def spec_new_def spec_set_model_def spec_set_IOR_id_def spec_addAlias_def
  spec_create_def spec_delete_def spec_snapshot_def spec_validate_def own_names_def
  malformed_payload_def malformed_reference_def no_object_def

lemmas env0_defs = env0_def world0_def world1_def script_headers_def no_headers_def
  thing_model_def spec_defs

lemmas ude_defs = handleUDE_CRUD_def ude_get_def ude_post_def ude_put_def ude_delete_def
  load_ude_def

section \<open>The reference namespace\<close>

text \<open>
  With the script header, a parsed reference and a resolved path, the handler calls
  \<^verbatim>\<open>reply.redirect\<close> with \<^verbatim>\<open>'/' + path.relative(webRoot, urlPath)\<close> and then goes on to
  \<^verbatim>\<open>throw new Error("Not Found")\<close>.
\<close>

lemma ior_get_redirects:
  assumes "startsWith (url request) ''/ior:esm:''"
    and "headers request ''sec-fetch-dest'' = Some ''script''"
    and "init env (strip_slash (url request)) = Inr i"
    and "load_path env i w = (Inr p, w')"
  shows "ior_get env request (w, t) =
           (Inl (Error ''Not Found''), w',
            t @ [(Init (strip_slash (url request)), None), (LoadPath i, None),
                 (ReplyRedirect (CHR ''/'' # relative env (webRoot env) p), None)])"
  using assms by (simp add: ior_get_def run_defs)

text \<open>An error of the parser or of the loader is the error of the handler, and no redirect is made.\<close>

lemma ior_get_propagates:
  assumes "startsWith (url request) ''/ior:esm:''"
    and "headers request ''sec-fetch-dest'' = Some ''script''"
    and "init env (strip_slash (url request)) = Inl e \<or>
         (\<exists>i. init env (strip_slash (url request)) = Inr i \<and> fst (load_path env i w) = Inl e)"
  shows "outcome (ior_get env request (w, [])) = Inl e \<and>
         filter is_redirect (calls (ior_get env request (w, []))) = []"
  using assms by (auto simp add: ior_get_def run_defs split: prod.splits sum.splits)

text \<open>
  C2. A \<^verbatim>\<open>GET /ior:esm:/X\<close> with the header \<^verbatim>\<open>sec-fetch-dest: script\<close> and a resolvable
  \<^verbatim>\<open>X\<close> should end in a redirect and not in a Not Found failure. Evaluated on the request
  for \<^verbatim>\<open>/ior:esm:/tla.EAM.Thing\<close>, the handler redirects to the root-relative path
  \<^verbatim>\<open>/EAMD.ucp/tla/EAM/Thing.mjs\<close> (the web root \<^verbatim>\<open>Scenarios/localhost\<close> removed) and then
  raises \<^verbatim>\<open>Not Found\<close>: the \<^verbatim>\<open>return\<close> after \<^verbatim>\<open>reply.redirect\<close> is missing.
\<close>

theorem ior_get_script_redirect_then_not_found:
  "ior_get env0 get_module (world0, []) =
     (Inl (Error ''Not Found''), world0,
      [(Init ''ior:esm:/tla.EAM.Thing'', None),
       (LoadPath \<lparr>protocol = [tag ''ior'', tag ''esm''], address = ''/tla.EAM.Thing''\<rparr>, None),
       (ReplyRedirect ''/EAMD.ucp/tla/EAM/Thing.mjs'', None)])"
  by (simp add: ior_get_def run_defs get_module_def env0_defs)

text \<open>
  C3. Each handler should produce exactly one terminal outcome per request: one response
  sent or one failure raised, never both. On the same request the reference handler does
  both: one redirect is sent and the run ends in a raised error.
\<close>

theorem ior_get_sends_and_raises:
  "filter is_redirect (calls (ior_get env0 get_module (world0, []))) =
     [(ReplyRedirect ''/EAMD.ucp/tla/EAM/Thing.mjs'', None)] \<and>
   outcome (ior_get env0 get_module (world0, [])) = Inl (Error ''Not Found'')"
  by (simp add: ior_get_def run_defs get_module_def env0_defs)

text \<open>
  C7. A \<^verbatim>\<open>GET /ior*\<close> without the header \<^verbatim>\<open>sec-fetch-dest: script\<close>, or with a reference
  that the loader does not resolve (it raises \<^verbatim>\<open>Not Found\<close>), fails with \<^verbatim>\<open>Not Found\<close>, and
  no redirect is issued.
\<close>

theorem ior_get_not_found:
  assumes "headers request ''sec-fetch-dest'' \<noteq> Some ''script'' \<or>
           (\<exists>i. init env (strip_slash (url request)) = Inr i \<and>
                fst (load_path env i w) = Inl (Error ''Not Found''))"
  shows "outcome (ior_get env request (w, [])) = Inl (Error ''Not Found'') \<and>
         filter is_redirect (calls (ior_get env request (w, []))) = []"
  using assms by (auto simp add: ior_get_def run_defs split: prod.splits sum.splits)

theorem ior_get_not_found_witness:
  "init env0 (strip_slash (url get_missing_module)) =
     Inr \<lparr>protocol = [tag ''ior'', tag ''esm''], address = ''/tla.EAM.Nothing''\<rparr> \<and>
   fst (load_path env0 \<lparr>protocol = [tag ''ior'', tag ''esm''], address = ''/tla.EAM.Nothing''\<rparr>
          world0) = Inl (Error ''Not Found'') \<and>
   outcome (ior_get env0 get_missing_module (world0, [])) = Inl (Error ''Not Found'') \<and>
   filter is_redirect (calls (ior_get env0 get_missing_module (world0, []))) = []"
proof -
  have parsed: "init env0 (strip_slash (url get_missing_module)) =
      Inr \<lparr>protocol = [tag ''ior'', tag ''esm''], address = ''/tla.EAM.Nothing''\<rparr>"
    by (simp add: get_missing_module_def env0_defs)
  have unresolved:
    "fst (load_path env0 \<lparr>protocol = [tag ''ior'', tag ''esm''], address = ''/tla.EAM.Nothing''\<rparr>
            world0) = Inl (Error ''Not Found'')"
    by (simp add: env0_defs)
  from parsed unresolved
  have "headers get_missing_module ''sec-fetch-dest'' \<noteq> Some ''script'' \<or>
        (\<exists>i. init env0 (strip_slash (url get_missing_module)) = Inr i \<and>
             fst (load_path env0 i world0) = Inl (Error ''Not Found''))"
    by blast
  from ior_get_not_found [OF this] parsed unresolved show ?thesis by blast
qed

text \<open>
  C8, as stated: a reference-namespace URL that does not begin with the scheme marker fails
  with a malformed-reference failure. It does not: for \<^verbatim>\<open>/ior:xyz:/tla.EAM.Thing\<close> the
  parser would reject the string as malformed, but the handler never asks it and raises
  \<^verbatim>\<open>Not Found\<close>.
\<close>

theorem ior_get_other_scheme_counterexample:
  "\<not> startsWith (url get_other_scheme) ''/ior:esm:'' \<and>
   init env0 (strip_slash (url get_other_scheme)) = Inl malformed_reference \<and>
   outcome (ior_get env0 get_other_scheme (world0, [])) = Inl (Error ''Not Found'') \<and>
   outcome (ior_get env0 get_other_scheme (world0, [])) \<noteq> Inl malformed_reference"
  by (simp add: ior_get_def run_defs get_other_scheme_def env0_defs)

text \<open>
  C8, amended: a URL of the reference namespace that does not begin with the scheme marker
  \<^verbatim>\<open>/ior:esm:\<close> fails with \<^verbatim>\<open>Not Found\<close>; the parser and the loader are not called, the
  state is unchanged and nothing is sent.
\<close>

theorem ior_get_other_scheme_not_found:
  "\<not> startsWith (url request) ''/ior:esm:'' \<Longrightarrow>
     ior_get env request (w, []) = (Inl (Error ''Not Found''), w, [])"
  by (simp add: ior_get_def run_defs)

theorem ior_get_other_scheme_not_found_witness:
  "take 9 (url get_other_scheme) = ''/ior:xyz:'' \<and>
   ior_get env0 get_other_scheme (world0, []) = (Inl (Error ''Not Found''), world0, [])"
proof -
  have u: "take 9 (url get_other_scheme) = ''/ior:xyz:''"
    by (simp add: get_other_scheme_def)
  have "\<not> startsWith (url get_other_scheme) ''/ior:esm:''"
    by (simp add: get_other_scheme_def startsWith_def)
  from ior_get_other_scheme_not_found [OF this, of env0 world0] u show ?thesis by blast
qed

section \<open>The persisted-component namespace\<close>

subsection \<open>Runs of the shared steps\<close>

lemma load_ude_run:
  "load_ude env u (w, t) =
     (case init env u of
        Inl e \<Rightarrow> (Inl e, w, t @ [(Init u, Some e)])
      | Inr i \<Rightarrow>
          (case load env (i\<lparr>protocol := protocol i @ [ude]\<rparr>) w of
             (r, w') \<Rightarrow>
               (r, w', t @ [(Init u, None),
                            (Load (i\<lparr>protocol := protocol i @ [ude]\<rparr>), raised r)])))"
  by (simp add: load_ude_def run_defs split: sum.splits prod.splits)

lemma ude_put_run:
  "ude_put env request (w, t) =
     (case validateUDEStructure env (body request) of
        Inl e \<Rightarrow> (Inl e, w, t @ [(ValidateUDEStructure (body request), Some e)])
      | Inr d \<Rightarrow>
          (case load_ude env (url request) (w, t @ [(ValidateUDEStructure (body request), None)]) of
             (Inl e, s) \<Rightarrow> (Inl e, s)
           | (Inr c, w1, t1) \<Rightarrow>
               (case set_model env c (particle_data d) w1 of
                  (Inl e, w2) \<Rightarrow> (Inl e, w2, t1 @ [(SetModel c (particle_data d), Some e)])
                | (Inr _, w2) \<Rightarrow>
                    (Inr (ucpComponentData env c w2), w2,
                     t1 @ [(SetModel c (particle_data d), None), (UcpComponentData c, None)]))))"
  by (simp add: ude_put_def bind_def invoke_def compute_def fetch_def raised_def
      split: sum.splits prod.splits)

text \<open>A PUT that returns a snapshot went through every step, each without an error.\<close>

lemma ude_put_success:
  assumes "http_method request = ''PUT''"
    and "handleUDE_CRUD env request (w, []) = (Inr snap, w', t)"
  shows "\<exists>d i c w1.
           validateUDEStructure env (body request) = Inr d \<and>
           init env (url request) = Inr i \<and>
           load env (i\<lparr>protocol := protocol i @ [ude]\<rparr>) w = (Inr c, w1) \<and>
           set_model env c (particle_data d) w1 = (Inr (), w') \<and>
           snap = ucpComponentData env c w' \<and>
           t = [(ReplyHeader ''Content-Type'' ''application/json; charset=utf-8'', None),
                (ValidateUDEStructure (body request), None),
                (Init (url request), None),
                (Load (i\<lparr>protocol := protocol i @ [ude]\<rparr>), None),
                (SetModel c (particle_data d), None),
                (UcpComponentData c, None)]"
  using assms
  by (auto simp add: handleUDE_CRUD_def bind_def reply_def ude_put_run load_ude_run raised_def
      split: sum.splits prod.splits)






subsection \<open>Read and delete\<close>

text \<open>
  C9. In the read (\<^verbatim>\<open>GET /UDE/<address>\<close>) and the delete (\<^verbatim>\<open>DELETE /UDE/<address>\<close>)
  operation the persisted-component tag is appended to the protocol chain of the reference
  that was parsed, the loader is called with that extended reference on the state of the
  request, and the URL is parsed once only.
\<close>

theorem ude_read_delete_force_tag:
  assumes "http_method request = ''GET'' \<or> http_method request = ''DELETE''"
    and "init env (url request) = Inr i"
  shows "\<exists>rest. calls (handleUDE_CRUD env request (w, [])) =
            (ReplyHeader ''Content-Type'' ''application/json; charset=utf-8'', None) #
            (Init (url request), None) #
            (Load (i\<lparr>protocol := protocol i @ [ude]\<rparr>),
               raised (fst (load env (i\<lparr>protocol := protocol i @ [ude]\<rparr>) w))) # rest \<and>
            filter is_init rest = []"
  using assms
  by (auto simp add: handleUDE_CRUD_def ude_get_def ude_delete_def load_ude_run bind_def
      reply_def invoke_def fetch_def ret_def raised_def split: prod.splits sum.splits)

theorem ude_read_delete_force_tag_witness:
  "init env0 (url get_thing) = Inr \<lparr>protocol = [], address = ''X''\<rparr> \<and>
   calls (handleUDE_CRUD env0 get_thing (world1, [])) =
     [(ReplyHeader ''Content-Type'' ''application/json; charset=utf-8'', None),
      (Init ''/UDE/X'', None),
      (Load \<lparr>protocol = [ude], address = ''X''\<rparr>, None),
      (UcpComponentData 0, None)] \<and>
   calls (handleUDE_CRUD env0 delete_thing (world1, [])) =
     [(ReplyHeader ''Content-Type'' ''application/json; charset=utf-8'', None),
      (Init ''/UDE/X'', None),
      (Load \<lparr>protocol = [ude], address = ''X''\<rparr>, None),
      (Delete 0, None)]"
proof -
  have g: "http_method get_thing = ''GET'' \<or> http_method get_thing = ''DELETE''"
    by (simp add: get_thing_def)
  have d: "http_method delete_thing = ''GET'' \<or> http_method delete_thing = ''DELETE''"
    by (simp add: delete_thing_def)
  have ig: "init env0 (url get_thing) = Inr \<lparr>protocol = [], address = ''X''\<rparr>"
    by (simp add: get_thing_def env0_defs)
  have id: "init env0 (url delete_thing) = Inr \<lparr>protocol = [], address = ''X''\<rparr>"
    by (simp add: delete_thing_def env0_defs)
  from ude_read_delete_force_tag [OF g ig, of world1]
  have "take 3 (calls (handleUDE_CRUD env0 get_thing (world1, []))) =
          [(ReplyHeader ''Content-Type'' ''application/json; charset=utf-8'', None),
           (Init ''/UDE/X'', None),
           (Load \<lparr>protocol = [ude], address = ''X''\<rparr>, None)]"
    by (auto simp add: get_thing_def env0_defs raised_def)
  moreover have "drop 3 (calls (handleUDE_CRUD env0 get_thing (world1, []))) =
          [(UcpComponentData 0, None)]"
    by (simp add: ude_defs run_defs get_thing_def env0_defs)
  ultimately have cg: "calls (handleUDE_CRUD env0 get_thing (world1, [])) =
     [(ReplyHeader ''Content-Type'' ''application/json; charset=utf-8'', None),
      (Init ''/UDE/X'', None),
      (Load \<lparr>protocol = [ude], address = ''X''\<rparr>, None),
      (UcpComponentData 0, None)]"
    by (metis append_Cons append_Nil append_take_drop_id)
  from ude_read_delete_force_tag [OF d id, of world1]
  have "take 3 (calls (handleUDE_CRUD env0 delete_thing (world1, []))) =
          [(ReplyHeader ''Content-Type'' ''application/json; charset=utf-8'', None),
           (Init ''/UDE/X'', None),
           (Load \<lparr>protocol = [ude], address = ''X''\<rparr>, None)]"
    by (auto simp add: delete_thing_def env0_defs raised_def)
  moreover have "drop 3 (calls (handleUDE_CRUD env0 delete_thing (world1, []))) =
          [(Delete 0, None)]"
    by (simp add: ude_defs run_defs delete_thing_def env0_defs)
  ultimately have cd: "calls (handleUDE_CRUD env0 delete_thing (world1, [])) =
     [(ReplyHeader ''Content-Type'' ''application/json; charset=utf-8'', None),
      (Init ''/UDE/X'', None),
      (Load \<lparr>protocol = [ude], address = ''X''\<rparr>, None),
      (Delete 0, None)]"
    by (metis append_Cons append_Nil append_take_drop_id)
  from ig cg cd show ?thesis by simp
qed

subsection \<open>Create\<close>

text \<open>
  C5. A \<^verbatim>\<open>POST /UDE\<close> whose body the validator rejects (a body without \<^verbatim>\<open>typeReference\<close>,
  say) fails with the validator's error, the malformed-payload failure, right after the
  validation: no class is loaded, no component is instantiated or registered, and the state
  is the one before the request.
\<close>

theorem ude_post_rejects_malformed:
  assumes "http_method request = ''POST''"
    and "validateUDEStructure env (body request) = Inl e"
  shows "handleUDE_CRUD env request (w, []) =
           (Inl e, w,
            [(ReplyHeader ''Content-Type'' ''application/json; charset=utf-8'', None),
             (ValidateUDEStructure (body request), Some e)])"
  using assms by (simp add: ude_defs run_defs)

theorem ude_post_rejects_malformed_witness:
  "field ''typeReference'' (body post_untyped) = None \<and>
   validateUDEStructure env0 (body post_untyped) = Inl malformed_payload \<and>
   handleUDE_CRUD env0 post_untyped (world0, []) =
     (Inl malformed_payload, world0,
      [(ReplyHeader ''Content-Type'' ''application/json; charset=utf-8'', None),
       (ValidateUDEStructure (body post_untyped), Some malformed_payload)])"
proof -
  have m: "http_method post_untyped = ''POST''"
    by (simp add: post_untyped_def)
  have f: "field ''typeReference'' (body post_untyped) = None"
    by (simp add: post_untyped_def)
  have v: "validateUDEStructure env0 (body post_untyped) = Inl malformed_payload"
    by (simp add: post_untyped_def env0_def spec_env_def spec_validate_def)
  from f v ude_post_rejects_malformed [OF m v, of world0] show ?thesis by simp
qed




text \<open>
  On the model of the collaborators, a successful create with a type, a model and an id adds
  one component and makes it resolvable under the id; a read of that id then returns it.
\<close>

lemma ude_post_plain_state:
  assumes "handleUDE_CRUD (spec_env root)
             \<lparr>url = u, http_method = ''POST'', headers = h,
              body = JObj [(''typeReference'', JStr T), (''model'', M), (''id'', JStr X)]\<rparr>
             (w, []) = (Inr snap, w', t)"
  shows "w' = w\<lparr>objects := objects w @
                  [\<lparr>comp_id = Some X, comp_aliases = [], comp_model = M, comp_type = T\<rparr>],
                names := (X, length (objects w)) # names w\<rparr>"
  using assms
  by (simp add: handleUDE_CRUD_def ude_post_def run_defs spec_defs nth_append split: if_splits)

lemma ude_get_created:
  "handleUDE_CRUD (spec_env root)
     \<lparr>url = ''/UDE/'' @ X, http_method = ''GET'', headers = h, body = b\<rparr>
     (w\<lparr>objects := objects w @
          [\<lparr>comp_id = Some X, comp_aliases = [], comp_model = M, comp_type = T\<rparr>],
        names := (X, length (objects w)) # names w\<rparr>, []) =
     (Inr (JObj [(''id'', JStr X), (''typeReference'', JStr T), (''aliases'', JArr []),
                 (''model'', M)]),
      w\<lparr>objects := objects w @
          [\<lparr>comp_id = Some X, comp_aliases = [], comp_model = M, comp_type = T\<rparr>],
        names := (X, length (objects w)) # names w\<rparr>,
      [(ReplyHeader ''Content-Type'' ''application/json; charset=utf-8'', None),
       (Init (''/UDE/'' @ X), None), (Load \<lparr>protocol = [ude], address = X\<rparr>, None),
       (UcpComponentData (length (objects w)), None)])"
  by (simp add: handleUDE_CRUD_def ude_get_def load_ude_def run_defs spec_defs)

text \<open>
  C1, on the model of the collaborators. A \<^verbatim>\<open>POST /UDE\<close> with the body
  \<^verbatim>\<open>{typeReference: T, model: M, id: X}\<close> that succeeds, followed by \<^verbatim>\<open>GET /UDE/X\<close>, returns
  a snapshot whose \<^verbatim>\<open>model\<close> is \<^verbatim>\<open>M\<close>.
\<close>

theorem ude_round_trip:
  assumes "handleUDE_CRUD (spec_env root)
             \<lparr>url = u, http_method = ''POST'', headers = h,
              body = JObj [(''typeReference'', JStr T), (''model'', M), (''id'', JStr X)]\<rparr>
             (w, []) = (Inr snap, w', t)"
  shows "\<exists>snap' t'.
           handleUDE_CRUD (spec_env root)
             \<lparr>url = ''/UDE/'' @ X, http_method = ''GET'', headers = h', body = b\<rparr> (w', []) =
             (Inr snap', w', t') \<and>
           field ''model'' snap' = Some M"
  unfolding ude_post_plain_state [OF assms] ude_get_created by simp

theorem ude_round_trip_witness:
  "outcome (handleUDE_CRUD env0 post_plain (world0, [])) =
     Inr (JObj [(''id'', JStr ''X''), (''typeReference'', JStr ''ior:esm:/tla.EAM.Thing''),
                (''aliases'', JArr []), (''model'', thing_model)]) \<and>
   outcome (handleUDE_CRUD env0 get_thing
              (final (handleUDE_CRUD env0 post_plain (world0, [])), [])) =
     Inr (JObj [(''id'', JStr ''X''), (''typeReference'', JStr ''ior:esm:/tla.EAM.Thing''),
                (''aliases'', JArr []), (''model'', thing_model)])"
proof -
  obtain snap w' t where
    run: "handleUDE_CRUD (spec_env ''Scenarios/localhost'')
            \<lparr>url = ''/UDE'', http_method = ''POST'', headers = no_headers,
             body = JObj [(''typeReference'', JStr ''ior:esm:/tla.EAM.Thing''),
                          (''model'', thing_model), (''id'', JStr ''X'')]\<rparr>
            (world0, []) = (Inr snap, w', t)"
    and snap: "snap = JObj [(''id'', JStr ''X''),
                 (''typeReference'', JStr ''ior:esm:/tla.EAM.Thing''),
                 (''aliases'', JArr []), (''model'', thing_model)]"
    by (simp add: ude_defs run_defs spec_defs world0_def)
  from ude_round_trip [OF run, of no_headers JNull] obtain snap' t' where
    get: "handleUDE_CRUD (spec_env ''Scenarios/localhost'')
            \<lparr>url = ''/UDE/'' @ ''X'', http_method = ''GET'', headers = no_headers, body = JNull\<rparr>
            (w', []) = (Inr snap', w', t')"
    and model: "field ''model'' snap' = Some thing_model"
    by blast
  have "snap' = JObj [(''id'', JStr ''X''),
                 (''typeReference'', JStr ''ior:esm:/tla.EAM.Thing''),
                 (''aliases'', JArr []), (''model'', thing_model)]"
    using get unfolding ude_post_plain_state [OF run] ude_get_created by simp
  with run snap get show ?thesis
    by (simp add: env0_def post_plain_def get_thing_def)
qed

subsection \<open>Update\<close>

text \<open>
  C10. Whatever the request and the collaborators, the \<^verbatim>\<open>PUT\<close> branch makes no call of
  \<^verbatim>\<open>create()\<close>, \<^verbatim>\<open>delete()\<close> or \<^verbatim>\<open>addAlias()\<close>: the update is an assignment to the model of the
  resolved component, followed by the snapshot.
\<close>

theorem ude_put_no_persistence:
  "http_method request = ''PUT'' \<Longrightarrow>
     filter is_persistence (calls (handleUDE_CRUD env request (w, []))) = []"
  by (simp add: handleUDE_CRUD_def bind_def reply_def ude_put_run load_ude_run raised_def
      split: sum.splits prod.splits)

theorem ude_put_no_persistence_witness:
  "http_method put_thing = ''PUT'' \<and>
   filter is_persistence (calls (handleUDE_CRUD env0 put_thing (world1, []))) = [] \<and>
   calls (handleUDE_CRUD env0 put_thing (world1, [])) =
     [(ReplyHeader ''Content-Type'' ''application/json; charset=utf-8'', None),
      (ValidateUDEStructure (body put_thing), None),
      (Init ''/UDE/X'', None),
      (Load \<lparr>protocol = [ude], address = ''X''\<rparr>, None),
      (SetModel 0 (JObj [(''foo'', JNum 9)]), None),
      (UcpComponentData 0, None)]"
proof -
  have m: "http_method put_thing = ''PUT''"
    by (simp add: put_thing_def)
  have "calls (handleUDE_CRUD env0 put_thing (world1, [])) =
     [(ReplyHeader ''Content-Type'' ''application/json; charset=utf-8'', None),
      (ValidateUDEStructure (body put_thing), None),
      (Init ''/UDE/X'', None),
      (Load \<lparr>protocol = [ude], address = ''X''\<rparr>, None),
      (SetModel 0 (JObj [(''foo'', JNum 9)]), None),
      (UcpComponentData 0, None)]"
    by (simp add: ude_defs run_defs put_thing_def env0_defs)
  with m ude_put_no_persistence [OF m, of env0 world1] show ?thesis by simp
qed

text \<open>
  C6, on the model of the collaborators, where assigning the model replaces it. A
  \<^verbatim>\<open>PUT /UDE/<address>\<close> that succeeds was made on an existing component; afterwards the
  model of that component is exactly the payload's model, whatever it was before, its aliases
  and the names that resolve are as before, no other component has changed, the snapshot
  returned shows the payload's model, and no \<^verbatim>\<open>addAlias\<close> call was made.
\<close>

theorem ude_put_replaces_model:
  assumes "http_method request = ''PUT''"
    and "handleUDE_CRUD (spec_env root) request (w, []) = (Inr snap, w', t)"
  shows "\<exists>d i c.
           validateUDEStructure (spec_env root) (body request) = Inr d \<and>
           init (spec_env root) (url request) = Inr i \<and>
           load (spec_env root) (i\<lparr>protocol := protocol i @ [ude]\<rparr>) w = (Inr c, w) \<and>
           c < length (objects w) \<and>
           w' = w\<lparr>objects := (objects w)[c := (objects w ! c)\<lparr>comp_model := particle_data d\<rparr>]\<rparr> \<and>
           comp_model (objects w' ! c) = particle_data d \<and>
           comp_aliases (objects w' ! c) = comp_aliases (objects w ! c) \<and>
           names w' = names w \<and>
           field ''model'' snap = Some (particle_data d) \<and>
           filter is_addAlias t = []"
proof -
  from ude_put_success [OF assms] obtain d i c w1 where
    d: "validateUDEStructure (spec_env root) (body request) = Inr d"
    and i: "init (spec_env root) (url request) = Inr i"
    and l: "load (spec_env root) (i\<lparr>protocol := protocol i @ [ude]\<rparr>) w = (Inr c, w1)"
    and m: "set_model (spec_env root) c (particle_data d) w1 = (Inr (), w')"
    and s: "snap = ucpComponentData (spec_env root) c w'"
    and t: "t = [(ReplyHeader ''Content-Type'' ''application/json; charset=utf-8'', None),
                 (ValidateUDEStructure (body request), None),
                 (Init (url request), None),
                 (Load (i\<lparr>protocol := protocol i @ [ude]\<rparr>), None),
                 (SetModel c (particle_data d), None),
                 (UcpComponentData c, None)]"
    by blast
  from l have w1: "w1 = w"
    by (auto simp add: spec_env_def spec_load_def split: if_splits option.splits)
  from m w1 have c: "c < length (objects w)"
    and w': "w' = w\<lparr>objects := (objects w)[c := (objects w ! c)\<lparr>comp_model := particle_data d\<rparr>]\<rparr>"
    by (auto simp add: spec_env_def spec_set_model_def split: if_splits)
  from c w' have model: "comp_model (objects w' ! c) = particle_data d"
    and aliases: "comp_aliases (objects w' ! c) = comp_aliases (objects w ! c)"
    and names: "names w' = names w"
    by simp_all
  from s c w' have "field ''model'' snap = Some (particle_data d)"
    by (simp add: spec_env_def spec_snapshot_def)
  moreover from t have "filter is_addAlias t = []"
    by simp
  ultimately show ?thesis
    using d i l w1 c w' model aliases names by blast
qed

text \<open>
  The component \<^verbatim>\<open>X\<close> holds \<^verbatim>\<open>{foo: 1, bar: 2}\<close> and the alias \<^verbatim>\<open>a\<close>; after the \<^verbatim>\<open>PUT\<close> of
  \<^verbatim>\<open>{foo: 9}\<close> its model is \<^verbatim>\<open>{foo: 9}\<close>, with no \<^verbatim>\<open>bar\<close>, and its aliases are the same.
\<close>

theorem ude_put_replaces_model_witness:
  "comp_model (objects world1 ! 0) = JObj [(''foo'', JNum 1), (''bar'', JNum 2)] \<and>
   comp_model (objects (final (handleUDE_CRUD env0 put_thing (world1, []))) ! 0) =
     JObj [(''foo'', JNum 9)] \<and>
   field ''bar'' (comp_model (objects (final (handleUDE_CRUD env0 put_thing (world1, []))) ! 0)) =
     None \<and>
   comp_aliases (objects (final (handleUDE_CRUD env0 put_thing (world1, []))) ! 0) = [''a''] \<and>
   names (final (handleUDE_CRUD env0 put_thing (world1, []))) = [(''X'', 0), (''a'', 0)] \<and>
   outcome (handleUDE_CRUD env0 put_thing (world1, [])) =
     Inr (JObj [(''id'', JStr ''X''), (''typeReference'', JStr ''ior:esm:/tla.EAM.Thing''),
                (''aliases'', JArr [JStr ''a'']), (''model'', JObj [(''foo'', JNum 9)])])"
proof -
  have m: "http_method put_thing = ''PUT''"
    by (simp add: put_thing_def)
  obtain snap w' t where
    run: "handleUDE_CRUD (spec_env ''Scenarios/localhost'') put_thing (world1, []) =
            (Inr snap, w', t)"
    and snap: "snap = JObj [(''id'', JStr ''X''),
                 (''typeReference'', JStr ''ior:esm:/tla.EAM.Thing''),
                 (''aliases'', JArr [JStr ''a'']), (''model'', JObj [(''foo'', JNum 9)])]"
    by (simp add: ude_defs run_defs put_thing_def world1_def world0_def no_headers_def
        thing_model_def spec_defs)
  from ude_put_replaces_model [OF m run] obtain d i c where
    d: "validateUDEStructure (spec_env ''Scenarios/localhost'') (body put_thing) = Inr d"
    and i: "init (spec_env ''Scenarios/localhost'') (url put_thing) = Inr i"
    and c: "load (spec_env ''Scenarios/localhost'') (i\<lparr>protocol := protocol i @ [ude]\<rparr>) world1 =
              (Inr c, world1)"
    and model: "comp_model (objects w' ! c) = particle_data d"
    and aliases: "comp_aliases (objects w' ! c) = comp_aliases (objects world1 ! c)"
    and names: "names w' = names world1"
    by blast
  from d have pd: "particle_data d = JObj [(''foo'', JNum 9)]"
    by (auto simp add: put_thing_def spec_env_def spec_validate_def)
  from i have "i = \<lparr>protocol = [], address = ''X''\<rparr>"
    by (auto simp add: put_thing_def spec_defs)
  with c have "c = 0"
    by (auto simp add: world1_def world0_def spec_defs)
  with model aliases names pd run snap show ?thesis
    by (simp add: env0_def world1_def thing_model_def)
qed

end
